theory Spec2Isabelle
  imports Main "HOL-Library.Sublist"
begin

section \<open>Block drift exporter: the Python values it handles\<close>

text \<open>
  The exporter (\<^verbatim>\<open>bc/monitoring/block_drift/block_drift_exporter.py\<close>) posts one JSON-RPC
  request to a remote and to a local node, reads the \<^verbatim>\<open>result\<close> field of each answer as an
  integer and renders the two heights and their difference as Prometheus gauges.

  Strings are \<open>string\<close>: one \<open>char\<close> per code point, code points 0 to 255. Python integers
  are \<open>int\<close>. The interpreter is CPython with its default limit of 4300 digits on the
  conversions between integers and decimal text, which the script never changes.
\<close>

text \<open>
  A Python float: a finite double is \<open>m * 2 ^ e\<close> for integers \<open>m\<close> and \<open>e\<close>; the JSON
  decoder of the standard library also yields infinities and NaN.
\<close>

datatype pyfloat = Finite int int | Infinite bool | NaN

text \<open>
  What \<^verbatim>\<open>resp.json()\<close> yields, and what a JSON-RPC body is made of. A dictionary is the list
  of its items (the keys of a Python dictionary are distinct); a lookup takes the item with
  the key.
\<close>

datatype pyval =
    PNone
  | PBool bool
  | PInt int
  | PFloat pyfloat
  | PStr string
  | PList "pyval list"
  | PDict "(string \<times> pyval) list"

text \<open>
  Exceptions. \<open>RequestException\<close> stands for \<^verbatim>\<open>requests.exceptions.RequestException\<close> and
  its subclasses (connection refused, DNS failure, timeout, invalid URL).
  \<open>KeyboardInterrupt\<close> and \<open>SystemExit\<close> derive from \<^verbatim>\<open>BaseException\<close> only, so that
  \<^verbatim>\<open>except Exception\<close> does not catch them.
\<close>

datatype exc_class =
    RequestException
  | JSONDecodeError
  | AttributeError
  | TypeError
  | ValueError
  | OverflowError
  | KeyError
  | KeyboardInterrupt
  | SystemExit

datatype py_exception = PyExc (exc_class: exc_class) (exc_str: string)

fun is_Exception :: "exc_class \<Rightarrow> bool" where
  "is_Exception KeyboardInterrupt = False"
| "is_Exception SystemExit = False"
| "is_Exception _ = True"

subsection \<open>Integers as decimal text\<close>

text \<open>
  The limit on the number of decimal digits in a conversion between an integer and text
  (\<^verbatim>\<open>sys.get_int_max_str_digits()\<close>).
\<close>

definition int_max_str_digits :: nat where
  "int_max_str_digits = 4300"

fun dec_digits :: "nat \<Rightarrow> string" where
  "dec_digits n =
     (if n < 10 then [char_of (48 + n)]
      else dec_digits (n div 10) @ [char_of (48 + n mod 10)])"

declare dec_digits.simps [simp del]

definition dec_str :: "int \<Rightarrow> string" where
  "dec_str i = (if i < 0 then CHR ''-'' # dec_digits (nat (- i)) else dec_digits (nat i))"

text \<open>
  \<^verbatim>\<open>str(n)\<close> of an integer, as an f-string inserts it: a number of more digits than the
  limit raises ValueError.
\<close>

definition str_limit_error :: py_exception where
  "str_limit_error =
     PyExc ValueError
       (''Exceeds the limit ('' @ dec_str (int int_max_str_digits)
          @ '' digits) for integer string conversion; ''
          @ ''use sys.set_int_max_str_digits() to increase the limit'')"

definition py_str_int :: "int \<Rightarrow> py_exception + string" where
  "py_str_int i =
     (if 10 ^ int_max_str_digits \<le> \<bar>i\<bar> then Inl str_limit_error else Inr (dec_str i))"

subsection \<open>The built-in \<^verbatim>\<open>int\<close>\<close>

text \<open>
  \<^verbatim>\<open>int(s, base)\<close> on a string, as CPython reads it: whitespace, an optional sign, for base
  16 an optional \<^verbatim>\<open>0x\<close> or \<^verbatim>\<open>0X\<close> with one optional underscore after it, then digits
  with single underscores between them, then whitespace to the end of the string.
\<close>

definition int_space :: "char \<Rightarrow> bool" where
  "int_space c = ((of_char c :: nat) \<in> set [9, 10, 11, 12, 13, 32, 133, 160])"

definition digit_value :: "char \<Rightarrow> nat option" where
  "digit_value c =
     (let n = (of_char c :: nat) in
      if 48 \<le> n \<and> n \<le> 57 then Some (n - 48)
      else if 97 \<le> n \<and> n \<le> 122 then Some (n - 87)
      else if 65 \<le> n \<and> n \<le> 90 then Some (n - 55)
      else None)"

definition is_digit :: "nat \<Rightarrow> char \<Rightarrow> bool" where
  "is_digit base c = (case digit_value c of None \<Rightarrow> False | Some d \<Rightarrow> d < base)"

definition strip_sign :: "string \<Rightarrow> bool \<times> string" where
  "strip_sign s =
     (case s of
        [] \<Rightarrow> (False, [])
      | c # r \<Rightarrow>
          if c = CHR ''+'' then (False, r)
          else if c = CHR ''-'' then (True, r)
          else (False, s))"

fun strip_prefix_16 :: "string \<Rightarrow> string" where
  "strip_prefix_16 (a # b # r) =
     (if a = CHR ''0'' \<and> (b = CHR ''x'' \<or> b = CHR ''X'')
      then (case r of [] \<Rightarrow> [] | c # r' \<Rightarrow> if c = CHR ''_'' then r' else r)
      else a # b # r)"
| "strip_prefix_16 s = s"

fun underscores_ok :: "string \<Rightarrow> bool" where
  "underscores_ok [] = False"
| "underscores_ok [c] = (c \<noteq> CHR ''_'')"
| "underscores_ok (a # b # r) =
     (a \<noteq> CHR ''_'' \<and> (if b = CHR ''_'' then underscores_ok r else underscores_ok (b # r)))"

definition digits_value :: "nat \<Rightarrow> string \<Rightarrow> nat" where
  "digits_value base ds =
     foldl (\<lambda>acc c. case digit_value c of None \<Rightarrow> acc | Some d \<Rightarrow> acc * base + d) 0 ds"

text \<open>
  What reading a string gives: the integer, or one of the two ValueErrors. In base 10 a
  well-formed run of more digits than the limit is refused, before the rest of the string
  is looked at; base 16 has no limit.
\<close>

datatype int_parse = Parsed int | Invalid_literal | Too_many_digits nat

definition parse_int :: "nat \<Rightarrow> string \<Rightarrow> int_parse" where
  "parse_int base s =
     (let (neg, s1) = strip_sign (dropWhile int_space s);
          s2 = (if base = 16 then strip_prefix_16 s1 else s1);
          in_run = (\<lambda>c. is_digit base c \<or> c = CHR ''_'');
          run = takeWhile in_run s2;
          rest = dropWhile in_run s2;
          ndigits = length (filter (\<lambda>c. c \<noteq> CHR ''_'') run)
      in if \<not> underscores_ok run then Invalid_literal
         else if base = 10 \<and> int_max_str_digits < ndigits then Too_many_digits ndigits
         else if \<not> list_all int_space rest then Invalid_literal
         else Parsed (if neg then - int (digits_value base run)
                      else int (digits_value base run)))"

definition int_of_str :: "nat \<Rightarrow> string \<Rightarrow> int option" where
  "int_of_str base s = (case parse_int base s of Parsed n \<Rightarrow> Some n | _ \<Rightarrow> None)"

text \<open>\<^verbatim>\<open>repr(s)\<close> of a string, as the message of a ValueError quotes it.\<close>

definition hex_digit :: "nat \<Rightarrow> char" where
  "hex_digit d = ''0123456789abcdef'' ! (d mod 16)"

definition repr_char :: "char \<Rightarrow> char \<Rightarrow> string" where
  "repr_char quote c =
     (let n = (of_char c :: nat) in
      if c = quote \<or> c = CHR 0x5C then [CHR 0x5C, c]
      else if n = 9 then [CHR 0x5C, CHR ''t'']
      else if n = 10 then [CHR 0x5C, CHR ''n'']
      else if n = 13 then [CHR 0x5C, CHR ''r'']
      else if n < 32 \<or> (127 \<le> n \<and> n \<le> 160) \<or> n = 173
        then [CHR 0x5C, CHR ''x'', hex_digit (n div 16), hex_digit n]
      else [c])"

definition repr_str :: "string \<Rightarrow> string" where
  "repr_str s =
     (let quote = (if CHR 0x27 \<in> set s \<and> CHR 0x22 \<notin> set s then CHR 0x22 else CHR 0x27)
      in quote # concat (map (repr_char quote) s) @ [quote])"

definition int_error :: "nat \<Rightarrow> string \<Rightarrow> nat option \<Rightarrow> py_exception" where
  "int_error base s too_many =
     (case too_many of
        None \<Rightarrow>
          PyExc ValueError (''invalid literal for int() with base '' @ dec_str (int base) @ '': ''
                              @ repr_str s)
      | Some k \<Rightarrow>
          PyExc ValueError (''Exceeds the limit ('' @ dec_str (int int_max_str_digits)
                              @ '' digits) for integer string conversion: value has ''
                              @ dec_str (int k) @ '' digits; ''
                              @ ''use sys.set_int_max_str_digits() to increase the limit''))"

definition py_int_str :: "nat \<Rightarrow> string \<Rightarrow> py_exception + int" where
  "py_int_str base s =
     (case parse_int base s of
        Parsed n \<Rightarrow> Inr n
      | Invalid_literal \<Rightarrow> Inl (int_error base s None)
      | Too_many_digits k \<Rightarrow> Inl (int_error base s (Some k)))"

definition type_name :: "pyval \<Rightarrow> string" where
  "type_name v =
     (case v of
        PNone \<Rightarrow> ''NoneType''
      | PBool _ \<Rightarrow> ''bool''
      | PInt _ \<Rightarrow> ''int''
      | PFloat _ \<Rightarrow> ''float''
      | PStr _ \<Rightarrow> ''str''
      | PList _ \<Rightarrow> ''list''
      | PDict _ \<Rightarrow> ''dict'')"

definition float_trunc :: "int \<Rightarrow> int \<Rightarrow> int" where
  \<comment> \<open>\<open>m * 2 ^ e\<close> rounded toward zero\<close>
  "float_trunc m e =
     (if 0 \<le> e then m * 2 ^ nat e else sgn m * (\<bar>m\<bar> div 2 ^ nat (- e)))"

text \<open>\<^verbatim>\<open>int(v, 16)\<close>: only a string is accepted with an explicit base.\<close>

definition py_int_base16 :: "pyval \<Rightarrow> py_exception + int" where
  "py_int_base16 v =
     (case v of
        PStr s \<Rightarrow> py_int_str 16 s
      | _ \<Rightarrow> Inl (PyExc TypeError ''int() can't convert non-string with explicit base''))"

text \<open>\<^verbatim>\<open>int(v)\<close>: numbers are converted, strings are read in base 10.\<close>

definition py_int :: "pyval \<Rightarrow> py_exception + int" where
  "py_int v =
     (case v of
        PInt i \<Rightarrow> Inr i
      | PBool b \<Rightarrow> Inr (if b then 1 else 0)
      | PFloat (Finite m e) \<Rightarrow> Inr (float_trunc m e)
      | PFloat (Infinite _) \<Rightarrow> Inl (PyExc OverflowError ''cannot convert float infinity to integer'')
      | PFloat NaN \<Rightarrow> Inl (PyExc ValueError ''cannot convert float NaN to integer'')
      | PStr s \<Rightarrow> py_int_str 10 s
      | _ \<Rightarrow> Inl (PyExc TypeError
                 (''int() argument must be a string, a bytes-like object or a real number, not ''
                    @ repr_str (type_name v))))"

text \<open>\<^verbatim>\<open>v.get(key)\<close>: a dictionary answers, None for a missing key; nothing else has \<^verbatim>\<open>get\<close>.\<close>

definition py_get :: "pyval \<Rightarrow> string \<Rightarrow> py_exception + pyval" where
  "py_get v k =
     (case v of
        PDict d \<Rightarrow> Inr (case map_of d k of None \<Rightarrow> PNone | Some x \<Rightarrow> x)
      | _ \<Rightarrow> Inl (PyExc AttributeError
                 (repr_str (type_name v) @ '' object has no attribute '' @ repr_str ''get'')))"

subsection \<open>Stripping\<close>

text \<open>\<^verbatim>\<open>s.strip()\<close>: whitespace removed at both ends.\<close>

definition str_space :: "char \<Rightarrow> bool" where
  "str_space c =
     ((of_char c :: nat) \<in> set [9, 10, 11, 12, 13, 28, 29, 30, 31, 32, 133, 160])"

definition py_strip :: "string \<Rightarrow> string" where
  "py_strip s = rev (dropWhile str_space (rev (dropWhile str_space s)))"

section \<open>The network and the log\<close>

text \<open>
  A call of \<^verbatim>\<open>requests.post\<close> either raises or returns a response, whose \<^verbatim>\<open>json()\<close> either
  raises a decoding error or returns the decoded body. The HTTP status of the response is
  never looked at by the exporter. The world answers the \<open>n\<close>-th request of a run through
  \<open>upstream\<close>, so that two requests to one URL may be answered differently; it records
  the requests sent and the log records written.
\<close>

record request =
  req_url :: string
  req_headers :: "(string \<times> string) list"
  req_json :: pyval
  req_timeout :: nat

datatype reply = Not_json string | Json pyval

datatype post_outcome = Raises py_exception | Responds reply

datatype level = INFO | ERROR

record chain_config =
  local :: string
  remote :: string
  is_hex :: bool
  jsonrpc_body :: pyval

text \<open>
  A log record is its level and its message. The message of \<^verbatim>\<open>dump_config\<close> is kept as the
  prefix and the dictionary it serialises: the text \<^verbatim>\<open>json.dumps\<close> makes of it is not
  reproduced.
\<close>

datatype log_message = Text string | Text_json string chain_config

record world =
  upstream :: "nat \<Rightarrow> request \<Rightarrow> post_outcome"
  sent :: "request list"
  logged :: "(level \<times> log_message) list"

definition requests_post :: "string \<Rightarrow> pyval \<Rightarrow> world \<Rightarrow> post_outcome \<times> world" where
  "requests_post url body w =
     (let rq = \<lparr>req_url = url,
                req_headers = [(''Content-Type'', ''application/json'')],
                req_json = body,
                req_timeout = 3\<rparr>
      in (upstream w (length (sent w)) rq, w\<lparr>sent := sent w @ [rq]\<rparr>))"

definition logging_error :: "string \<Rightarrow> world \<Rightarrow> world" where
  "logging_error msg w = w\<lparr>logged := logged w @ [(ERROR, Text msg)]\<rparr>"

definition logging_info :: "log_message \<Rightarrow> world \<Rightarrow> world" where
  "logging_info msg w = w\<lparr>logged := logged w @ [(INFO, msg)]\<rparr>"

section \<open>The chain registry\<close>

definition eth_body :: pyval where
  "eth_body = PDict [(''jsonrpc'', PStr ''2.0''), (''id'', PInt 1),
                     (''method'', PStr ''eth_blockNumber''), (''params'', PList [])]"

definition CHAIN_CONFIGS :: "(string \<times> chain_config) list" where
  "CHAIN_CONFIGS =
     [(''sol'',
        \<lparr>local = ''http://127.0.0.1:8899'',
         remote = ''https://api.mainnet-beta.solana.com'',
         is_hex = False,
         jsonrpc_body = PDict [(''jsonrpc'', PStr ''2.0''), (''id'', PInt 1),
                               (''method'', PStr ''getBlockHeight'')]\<rparr>),
      (''eth'',
        \<lparr>local = ''http://127.0.0.1:8545'',
         remote = ''https://ethereum.llamarpc.com'',
         is_hex = True,
         jsonrpc_body = eth_body\<rparr>),
      (''bsc'',
        \<lparr>local = ''http://127.0.0.1:8545'',
         remote = ''https://bsc-dataseed1.binance.org/'',
         is_hex = True,
         jsonrpc_body = eth_body\<rparr>),
      (''base'',
        \<lparr>local = ''http://127.0.0.1:8545'',
         remote = ''https://mainnet.base.org'',
         is_hex = True,
         jsonrpc_body = eth_body\<rparr>),
      (''sonic'',
        \<lparr>local = ''http://127.0.0.1:18545'',
         remote = ''https://sonic-rpc.publicnode.com:443'',
         is_hex = True,
         jsonrpc_body = eth_body\<rparr>),
      (''bera'',
        \<lparr>local = ''http://127.0.0.1:8545'',
         remote = ''https://berachain-rpc.publicnode.com'',
         is_hex = True,
         jsonrpc_body = eth_body\<rparr>),
      (''story'',
        \<lparr>local = ''http://127.0.0.1:8545'',
         remote = ''https://mainnet.storyrpc.io'',
         is_hex = True,
         jsonrpc_body = eth_body\<rparr>),
      (''pulse'',
        \<lparr>local = ''http://127.0.0.1:8545'',
         remote = ''https://pulsechain-rpc.publicnode.com'',
         is_hex = True,
         jsonrpc_body = eth_body\<rparr>),
      (''avalanchego'',
        \<lparr>local = ''http://127.0.0.1:8545/ext/bc/C/rpc'',
         remote = ''https://avalanche.therpc.io'',
         is_hex = True,
         jsonrpc_body = eth_body\<rparr>)]"

section \<open>The height fetcher\<close>

text \<open>
  The body of the \<^verbatim>\<open>try\<close> block, given what the post did: it raises (\<open>Inl\<close>) or returns
  (\<open>Inr\<close>) the height, None when the answer has no \<^verbatim>\<open>result\<close>.
\<close>

definition fetch_block_height_try :: "post_outcome \<Rightarrow> bool \<Rightarrow> py_exception + int option" where
  "fetch_block_height_try outcome hex =
     (case outcome of
        Raises e \<Rightarrow> Inl e
      | Responds (Not_json m) \<Rightarrow> Inl (PyExc JSONDecodeError m)
      | Responds (Json j) \<Rightarrow>
          (case py_get j ''result'' of
             Inl e \<Rightarrow> Inl e
           | Inr result \<Rightarrow>
               if result = PNone then Inr None
               else (case (if hex then py_int_base16 result else py_int result) of
                       Inl e \<Rightarrow> Inl e
                     | Inr n \<Rightarrow> Inr (Some n))))"

text \<open>
  \<^verbatim>\<open>except Exception as e\<close> logs and returns None; an exception that is not an
  \<^verbatim>\<open>Exception\<close> leaves the function.
\<close>

definition fetch_block_height ::
  "string \<Rightarrow> pyval \<Rightarrow> bool \<Rightarrow> world \<Rightarrow> (py_exception + int option) \<times> world" where
  "fetch_block_height url body hex w =
     (let (outcome, w1) = requests_post url body w in
      case fetch_block_height_try outcome hex of
        Inr r \<Rightarrow> (Inr r, w1)
      | Inl e \<Rightarrow>
          if is_Exception (exc_class e)
          then (Inr None,
                logging_error (''Failed to fetch block height from '' @ url @ '': '' @ exc_str e) w1)
          else (Inl e, w1))"

section \<open>The metrics calculator\<close>

text \<open>
  The three f-strings are one expression: the local height, the remote height and the
  drift are converted to text in this order, and a conversion that raises ends the call.
\<close>

definition calculate_metrics ::
  "string \<Rightarrow> string \<Rightarrow> string \<Rightarrow> pyval \<Rightarrow> bool \<Rightarrow> world \<Rightarrow> (py_exception + string) \<times> world" where
  "calculate_metrics chain local_url remote_url body hex w =
     (case fetch_block_height remote_url body hex w of
        (Inl e, w1) \<Rightarrow> (Inl e, w1)
      | (Inr remote_block, w1) \<Rightarrow>
          (case fetch_block_height local_url body hex w1 of
             (Inl e, w2) \<Rightarrow> (Inl e, w2)
           | (Inr local_block, w2) \<Rightarrow>
               (case (remote_block, local_block) of
                  (Some r, Some l) \<Rightarrow>
                    (let drift = r - l in
                     (case py_str_int l of
                        Inl e \<Rightarrow> (Inl e, w2)
                      | Inr local_text \<Rightarrow>
                     (case py_str_int r of
                        Inl e \<Rightarrow> (Inl e, w2)
                      | Inr remote_text \<Rightarrow>
                     (case py_str_int drift of
                        Inl e \<Rightarrow> (Inl e, w2)
                      | Inr drift_text \<Rightarrow>
                     (Inr (''chain_block_height_local{chain=\"'' @ chain @ ''\"} ''
                             @ local_text @ [CHR 0x0A]
                           @ ''chain_block_height_remote{chain=\"'' @ chain @ ''\"} ''
                             @ remote_text @ [CHR 0x0A]
                           @ ''chain_block_height_drift{chain=\"'' @ chain @ ''\"} ''
                             @ drift_text @ [CHR 0x0A]),
                      w2)))))
                | _ \<Rightarrow>
                    (Inr (''# Error: could not retrieve block height for chain ''
                            @ [CHR 0x27] @ chain @ [CHR 0x27] @ [CHR 0x0A]),
                     w2))))"

section \<open>Delivery: the handler and the start of the program\<close>

record args =
  chain :: string
  serve :: bool
  port :: int
  remote_arg :: "string option"
  local_arg :: "string option"

text \<open>
  The globals of the module once \<^verbatim>\<open>main\<close> has bound them. \<^verbatim>\<open>config\<close> is the very dictionary
  \<^verbatim>\<open>CHAIN_CONFIGS[args.chain]\<close>, not a copy: a store through \<^verbatim>\<open>config\<close> is a store into the
  registry, and \<open>config_store\<close> writes both.
\<close>

record globals =
  chain_configs :: "string \<rightharpoonup> chain_config"
  args :: args
  config :: chain_config

definition config_store :: "(chain_config \<Rightarrow> chain_config) \<Rightarrow> globals \<Rightarrow> globals" where
  "config_store f g =
     g\<lparr>config := f (config g),
       chain_configs := (chain_configs g)(chain (args g) \<mapsto> f (config g))\<rparr>"

text \<open>The response object of the web framework: the status is 200 unless one is given.\<close>

record response =
  status :: nat
  mimetype :: string
  data :: string

definition Response :: "string \<Rightarrow> string \<Rightarrow> response" where
  "Response d m = \<lparr>status = 200, mimetype = m, data = d\<rparr>"

definition metrics :: "globals \<Rightarrow> world \<Rightarrow> (py_exception + response) \<times> world" where
  "metrics g w =
     (case calculate_metrics (chain (args g)) (local (config g)) (remote (config g))
             (jsonrpc_body (config g)) (is_hex (config g)) w of
        (Inl e, w1) \<Rightarrow> (Inl e, w1)
      | (Inr output, w1) \<Rightarrow>
          (Inr (Response (output @ [CHR 0x0A]) ''text/plain''),
           logging_info (Text (''Exported metrics for '' @ chain (args g) @ '':'' @ [CHR 0x0A]
                                 @ py_strip output)) w1))"

definition dump_config :: "string \<Rightarrow> globals \<Rightarrow> world \<Rightarrow> py_exception + world" where
  "dump_config c g w =
     (case chain_configs g c of
        None \<Rightarrow> Inl (PyExc KeyError (repr_str c))
      | Some cfg \<Rightarrow> Inr (logging_info (Text_json ''Effective config: '' cfg) w))"

text \<open>
  \<^verbatim>\<open>parse_args\<close> refuses a chain that is not a key of the registry and leaves the program.
\<close>

definition parse_args :: "args \<Rightarrow> py_exception + args" where
  "parse_args a =
     (if chain a \<in> set (map fst CHAIN_CONFIGS) then Inr a else Inl (PyExc SystemExit ''2''))"

text \<open>
  Truth of an optional string argument: given and not empty.
\<close>

definition truthy :: "string option \<Rightarrow> bool" where
  "truthy a = (case a of None \<Rightarrow> False | Some s \<Rightarrow> s \<noteq> [])"

text \<open>Lines 128 to 136 of \<^verbatim>\<open>main\<close>: the globals are bound and the overrides stored.\<close>

definition main_config :: "args \<Rightarrow> py_exception + globals" where
  "main_config argv =
     (case parse_args argv of
        Inl e \<Rightarrow> Inl e
      | Inr a \<Rightarrow>
          (case map_of CHAIN_CONFIGS (chain a) of
             None \<Rightarrow> Inl (PyExc KeyError (repr_str (chain a)))
           | Some c \<Rightarrow>
               (let g0 = \<lparr>chain_configs = map_of CHAIN_CONFIGS, args = a, config = c\<rparr>;
                    g1 = (case remote_arg a of
                            Some u \<Rightarrow> if truthy (remote_arg a) then config_store (\<lambda>c. c\<lparr>remote := u\<rparr>) g0 else g0
                          | None \<Rightarrow> g0);
                    g2 = (case local_arg a of
                            Some u \<Rightarrow> if truthy (local_arg a) then config_store (\<lambda>c. c\<lparr>local := u\<rparr>) g1 else g1
                          | None \<Rightarrow> g1)
                in Inr g2)))"

text \<open>
  \<^verbatim>\<open>main\<close>: in serve mode the result is the globals the handler runs with (the server loop
  of the framework is not part of the model); otherwise the metrics are computed once.
\<close>

definition main :: "args \<Rightarrow> world \<Rightarrow> (py_exception + globals) \<times> world" where
  "main argv w =
     (case main_config argv of
        Inl e \<Rightarrow> (Inl e, w)
      | Inr g \<Rightarrow>
          (case dump_config (chain (args g)) g w of
             Inl e \<Rightarrow> (Inl e, w)
           | Inr w1 \<Rightarrow>
               if serve (args g)
               then (case py_str_int (port (args g)) of
                       Inl e \<Rightarrow> (Inl e, w1)
                     | Inr port_text \<Rightarrow>
                         (Inr g,
                          logging_info (Text (''Starting HTTP server for '' @ chain (args g)
                                                @ '' on :'' @ port_text)) w1))
               else (case calculate_metrics (chain (args g)) (local (config g)) (remote (config g))
                            (jsonrpc_body (config g)) (is_hex (config g)) w1 of
                       (Inl e, w2) \<Rightarrow> (Inl e, w2)
                     | (Inr output, w2) \<Rightarrow>
                         (Inr g,
                          logging_info (Text (''Exported metrics for '' @ chain (args g) @ '':''
                                                @ [CHR 0x0A] @ py_strip output)) w2))))"

section \<open>Worlds and notions used to state the properties\<close>

text \<open>
  A world that answers the requests of a run from a list, in order, and refuses the
  connection once the list is used up.
\<close>

definition scripted :: "post_outcome list \<Rightarrow> world" where
  "scripted outcomes =
     \<lparr>upstream = (\<lambda>n rq. if n < length outcomes then outcomes ! n
                           else Raises (PyExc RequestException ''Connection refused'')),
      sent = [], logged = []\<rparr>"

text \<open>The request \<^verbatim>\<open>fetch_block_height\<close> sends for a URL and a body.\<close>

definition posted :: "string \<Rightarrow> pyval \<Rightarrow> request" where
  "posted url body =
     \<lparr>req_url = url,
      req_headers = [(''Content-Type'', ''application/json'')],
      req_json = body,
      req_timeout = 3\<rparr>"

text \<open>A Prometheus gauge sample with the chain label, and the error comment.\<close>

definition gauge_sample :: "string \<Rightarrow> string \<Rightarrow> int \<Rightarrow> string" where
  "gauge_sample name c v = name @ ''{chain=\"'' @ c @ ''\"} '' @ dec_str v"

definition error_comment :: "string \<Rightarrow> string" where
  "error_comment c =
     ''# Error: could not retrieve block height for chain '' @ [CHR 0x27] @ c @ [CHR 0x27]"

text \<open>An integer the f-string can render: it has no more decimal digits than the limit.\<close>

definition printable :: "int \<Rightarrow> bool" where
  "printable i = (\<bar>i\<bar> < 10 ^ int_max_str_digits)"

text \<open>
  A node's answer whose \<^verbatim>\<open>result\<close> is \<^verbatim>\<open>0x1\<close> followed by 3600 zeros: the height
  \<open>16 ^ 3600\<close>, a number of 4335 decimal digits.
\<close>

definition huge_height :: int where
  "huge_height = 16 ^ 3600"

definition huge_answer :: post_outcome where
  "huge_answer = Responds (Json (PDict [(''result'', PStr (''0x1'' @ replicate 3600 (CHR ''0'')))]))"

text \<open>The lines of a text, each ended by a newline (the last one may lack it).\<close>

fun text_lines :: "string \<Rightarrow> string list" where
  "text_lines [] = []"
| "text_lines (c # cs) =
     (if c = CHR 0x0A then [] # text_lines cs
      else (case text_lines cs of [] \<Rightarrow> [c] # [] | l # ls \<Rightarrow> (c # l) # ls))"

text \<open>
  The answer is a JSON object whose \<^verbatim>\<open>result\<close> is missing or null: the case the fetcher
  returns from before \<^verbatim>\<open>int\<close> is called.
\<close>

definition result_missing :: "post_outcome \<Rightarrow> bool" where
  "result_missing outcome =
     (case outcome of
        Responds (Json (PDict d)) \<Rightarrow> map_of d ''result'' = None \<or> map_of d ''result'' = Some PNone
      | _ \<Rightarrow> False)"

text \<open>
  A \<^verbatim>\<open>result\<close> that carries no minus sign: a string without the character, a number that
  is not below zero.
\<close>

definition unsigned_result :: "pyval \<Rightarrow> bool" where
  "unsigned_result v =
     (case v of
        PStr s \<Rightarrow> CHR ''-'' \<notin> set s
      | PInt i \<Rightarrow> 0 \<le> i
      | PFloat (Finite m e) \<Rightarrow> 0 \<le> m
      | _ \<Rightarrow> True)"

text \<open>The integer \<open>n\<close> is the number \<open>v\<close> (an integer, or the finite float \<open>m * 2 ^ e\<close>).\<close>

definition same_number :: "int \<Rightarrow> pyval \<Rightarrow> bool" where
  "same_number n v =
     (case v of
        PInt i \<Rightarrow> n = i
      | PFloat (Finite m e) \<Rightarrow> (if 0 \<le> e then n = m * 2 ^ nat e else n * 2 ^ nat (- e) = m)
      | _ \<Rightarrow> False)"

section \<open>The registry\<close>

lemma registry_entries:
  "list_all (\<lambda>(c, cfg). if c = ''sol''
        then \<not> is_hex cfg \<and> py_get (jsonrpc_body cfg) ''method'' = Inr (PStr ''getBlockHeight'')
        else is_hex cfg \<and> py_get (jsonrpc_body cfg) ''method'' = Inr (PStr ''eth_blockNumber''))
     CHAIN_CONFIGS"
  by (simp add: CHAIN_CONFIGS_def eth_body_def py_get_def)

text \<open>
  C5. The registry has nine chains with distinct identifiers. The entry of \<^verbatim>\<open>sol\<close> is
  decimal (\<^verbatim>\<open>is_hex\<close> false) with method \<^verbatim>\<open>getBlockHeight\<close>; every other entry is
  hexadecimal with method \<^verbatim>\<open>eth_blockNumber\<close>.
\<close>

theorem registry_conventions:
  "length CHAIN_CONFIGS = 9 \<and> distinct (map fst CHAIN_CONFIGS) \<and>
   (\<exists>cfg. map_of CHAIN_CONFIGS ''sol'' = Some cfg) \<and>
   (\<forall>c cfg. map_of CHAIN_CONFIGS c = Some cfg \<longrightarrow>
      (if c = ''sol''
       then \<not> is_hex cfg \<and> py_get (jsonrpc_body cfg) ''method'' = Inr (PStr ''getBlockHeight'')
       else is_hex cfg \<and> py_get (jsonrpc_body cfg) ''method'' = Inr (PStr ''eth_blockNumber'')))"
proof -
  have a: "length CHAIN_CONFIGS = 9" by (simp add: CHAIN_CONFIGS_def)
  have b: "distinct (map fst CHAIN_CONFIGS)" by (simp add: CHAIN_CONFIGS_def)
  have c: "\<exists>cfg. map_of CHAIN_CONFIGS ''sol'' = Some cfg" by (simp add: CHAIN_CONFIGS_def)
  have d: "(if c = ''sol''
       then \<not> is_hex cfg \<and> py_get (jsonrpc_body cfg) ''method'' = Inr (PStr ''getBlockHeight'')
       else is_hex cfg \<and> py_get (jsonrpc_body cfg) ''method'' = Inr (PStr ''eth_blockNumber''))"
    if "map_of CHAIN_CONFIGS c = Some cfg" for c cfg
  proof -
    from that have "(c, cfg) \<in> set CHAIN_CONFIGS" by (rule map_of_SomeD)
    with registry_entries show ?thesis
      unfolding list_all_iff by blast
  qed
  from a b c d show ?thesis by blast
qed

theorem registry_conventions_witness:
  "map_of CHAIN_CONFIGS ''eth'' = Some \<lparr>local = ''http://127.0.0.1:8545'',
         remote = ''https://ethereum.llamarpc.com'', is_hex = True, jsonrpc_body = eth_body\<rparr> \<and>
   is_hex \<lparr>local = ''http://127.0.0.1:8545'',
         remote = ''https://ethereum.llamarpc.com'', is_hex = True, jsonrpc_body = eth_body\<rparr> \<and>
   py_get eth_body ''method'' = Inr (PStr ''eth_blockNumber'')"
proof -
  let ?cfg = "\<lparr>local = ''http://127.0.0.1:8545'',
         remote = ''https://ethereum.llamarpc.com'', is_hex = True, jsonrpc_body = eth_body\<rparr>"
  have h: "map_of CHAIN_CONFIGS ''eth'' = Some ?cfg"
    by (simp add: CHAIN_CONFIGS_def)
  from registry_conventions have "\<forall>c cfg. map_of CHAIN_CONFIGS c = Some cfg \<longrightarrow>
      (if c = ''sol''
       then \<not> is_hex cfg \<and> py_get (jsonrpc_body cfg) ''method'' = Inr (PStr ''getBlockHeight'')
       else is_hex cfg \<and> py_get (jsonrpc_body cfg) ''method'' = Inr (PStr ''eth_blockNumber''))"
    by blast
  from this h have "(if ''eth'' = ''sol''
       then \<not> is_hex ?cfg \<and> py_get (jsonrpc_body ?cfg) ''method'' = Inr (PStr ''getBlockHeight'')
       else is_hex ?cfg \<and> py_get (jsonrpc_body ?cfg) ''method'' = Inr (PStr ''eth_blockNumber''))"
    by blast
  with h show ?thesis by simp
qed

section \<open>The height fetcher: results\<close>

lemma requests_post_fst:
  "fst (requests_post url body w) = upstream w (length (sent w)) (posted url body)"
  by (simp add: requests_post_def posted_def Let_def)

lemma requests_post_snd:
  "snd (requests_post url body w) = w\<lparr>sent := sent w @ [posted url body]\<rparr>"
  by (simp add: requests_post_def posted_def Let_def)

lemma scripted_answer: "fst (requests_post url body (scripted (x # xs))) = x"
  by (simp add: requests_post_fst scripted_def)

lemma fetch_block_height_unfold:
  "fetch_block_height url body hex w =
     (case fetch_block_height_try (fst (requests_post url body w)) hex of
        Inr r \<Rightarrow> (Inr r, snd (requests_post url body w))
      | Inl e \<Rightarrow>
          if is_Exception (exc_class e)
          then (Inr None,
                logging_error (''Failed to fetch block height from '' @ url @ '': '' @ exc_str e)
                  (snd (requests_post url body w)))
          else (Inl e, snd (requests_post url body w)))"
  by (simp add: fetch_block_height_def split_beta)

lemma fetch_block_height_result:
  "fst (fetch_block_height url body hex w) =
     (case fetch_block_height_try (fst (requests_post url body w)) hex of
        Inr r \<Rightarrow> Inr r
      | Inl e \<Rightarrow> if is_Exception (exc_class e) then Inr None else Inl e)"
  by (simp add: fetch_block_height_unfold split: sum.split)

subsection \<open>Reading plain digits\<close>

text \<open>
  A string of digits of the base, in base 16 also after \<^verbatim>\<open>0x\<close>, is read as the number
  these digits denote; in base 10 only up to the limit on the number of digits.
\<close>

lemma digit_code:
  assumes "is_digit base c" and "base \<le> 16"
  shows "(48 \<le> (of_char c :: nat) \<and> (of_char c :: nat) \<le> 57)
       \<or> (65 \<le> (of_char c :: nat) \<and> (of_char c :: nat) \<le> 70)
       \<or> (97 \<le> (of_char c :: nat) \<and> (of_char c :: nat) \<le> 102)"
  using assms
  by (auto simp add: is_digit_def digit_value_def Let_def split: if_splits)

lemma digit_not_special:
  assumes "is_digit base c" and "base \<le> 16"
  shows "\<not> int_space c" "c \<noteq> CHR ''+''" "c \<noteq> CHR ''-''" "c \<noteq> CHR ''_''"
        "c \<noteq> CHR ''x''" "c \<noteq> CHR ''X''"
  using digit_code [OF assms] by (auto simp add: int_space_def)

lemma underscores_ok_plain: "ds \<noteq> [] \<Longrightarrow> CHR ''_'' \<notin> set ds \<Longrightarrow> underscores_ok ds"
  by (induction ds rule: underscores_ok.induct) auto

lemma parse_int_plain:
  assumes ne: "ds \<noteq> []" and dig: "list_all (is_digit base) ds" and b: "base \<le> 16"
      and lim: "base \<noteq> 10 \<or> length ds \<le> int_max_str_digits"
      and s: "s = ds \<or> (base = 16 \<and> s = ''0x'' @ ds)"
  shows "parse_int base s = Parsed (int (digits_value base ds))"
proof -
  from ne obtain c cs where ds: "ds = c # cs" by (cases ds) auto
  from dig have all: "\<And>x. x \<in> set ds \<Longrightarrow> is_digit base x" by (simp add: list_all_iff)
  then have c: "is_digit base c" by (simp add: ds)
  note cn = digit_not_special [OF c b]
  have us: "CHR ''_'' \<notin> set ds"
    using all digit_not_special(4) [OF _ b] by blast
  have zero: "\<not> int_space (CHR ''0'')" by (simp add: int_space_def)
  have s2: "(if base = 16 then strip_prefix_16 (snd (strip_sign (dropWhile int_space s)))
             else snd (strip_sign (dropWhile int_space s))) = ds"
       and neg: "fst (strip_sign (dropWhile int_space s)) = False"
  proof -
    from s show "(if base = 16 then strip_prefix_16 (snd (strip_sign (dropWhile int_space s)))
             else snd (strip_sign (dropWhile int_space s))) = ds"
    proof
      assume "s = ds"
      moreover have "strip_prefix_16 ds = ds"
      proof (cases cs)
        case Nil
        then show ?thesis by (simp add: ds)
      next
        case (Cons d rest)
        with all have "is_digit base d" by (simp add: ds)
        from digit_not_special(5,6) [OF this b] show ?thesis by (simp add: ds Cons)
      qed
      ultimately show ?thesis using cn by (simp add: ds strip_sign_def)
    next
      assume "base = 16 \<and> s = ''0x'' @ ds"
      then show ?thesis using cn zero by (simp add: ds strip_sign_def)
    qed
    from s show "fst (strip_sign (dropWhile int_space s)) = False"
      using cn zero by (auto simp add: ds strip_sign_def)
  qed
  have run: "takeWhile (\<lambda>c. is_digit base c \<or> c = CHR ''_'') ds = ds"
    using all by simp
  have rest: "dropWhile (\<lambda>c. is_digit base c \<or> c = CHR ''_'') ds = []"
    using all by simp
  have flt: "filter (\<lambda>c. c \<noteq> CHR ''_'') ds = ds"
    using us by (auto simp add: filter_id_conv)
  have "parse_int base s =
          (if \<not> underscores_ok ds then Invalid_literal
           else if base = 10 \<and> int_max_str_digits < length ds then Too_many_digits (length ds)
           else if \<not> list_all int_space [] then Invalid_literal
           else Parsed (if False then - int (digits_value base ds)
                        else int (digits_value base ds)))"
    by (simp only: parse_int_def Let_def split_beta s2 neg run rest flt)
  with lim underscores_ok_plain [OF ne us] show ?thesis
    by auto
qed

lemma digits_value_Nil: "digits_value base [] = 0"
  by (simp add: digits_value_def)

lemma digits_value_snoc:
  "digit_value c = Some d \<Longrightarrow> digits_value base (ds @ [c]) = digits_value base ds * base + d"
  by (simp add: digits_value_def)

lemma int_error_class: "exc_class (int_error base s t) = ValueError"
  by (simp add: int_error_def split: option.split)

lemma py_int_str_Inr: "py_int_str base s = Inr n \<longleftrightarrow> int_of_str base s = Some n"
  by (simp add: py_int_str_def int_of_str_def split: int_parse.split)

lemma py_int_str_Inl: "py_int_str base s = Inl e \<Longrightarrow> int_of_str base s = None \<and> exc_class e = ValueError"
  by (auto simp add: py_int_str_def int_of_str_def int_error_class split: int_parse.splits)

lemma try_string_result:
  "map_of d ''result'' = Some (PStr s) \<Longrightarrow>
   fetch_block_height_try (Responds (Json (PDict d))) hex =
     (case py_int_str (if hex then 16 else 10) s of
        Inl e \<Rightarrow> Inl e
      | Inr n \<Rightarrow> Inr (Some n))"
  by (simp add: fetch_block_height_try_def py_get_def py_int_base16_def py_int_def)

lemma fetch_block_height_string:
  assumes "fst (requests_post url body w) = Responds (Json (PDict d))"
      and "map_of d ''result'' = Some (PStr s)"
  shows "fst (fetch_block_height url body hex w) = Inr (int_of_str (if hex then 16 else 10) s)"
proof (cases "py_int_str (if hex then 16 else 10) s")
  case (Inl e)
  with assms py_int_str_Inl [OF Inl] show ?thesis
    by (simp add: fetch_block_height_result try_string_result)
next
  case (Inr n)
  with assms py_int_str_Inr [of "if hex then 16 else 10" s n] show ?thesis
    by (simp add: fetch_block_height_result try_string_result)
qed

lemma int_of_str_0x10: "int_of_str 16 ''0x10'' = Some 16"
  by code_simp

lemma int_of_str_16: "int_of_str 10 ''16'' = Some 16"
  by code_simp

text \<open>
  C3. For a string in \<^verbatim>\<open>result\<close> the fetcher returns what \<^verbatim>\<open>int\<close> reads from it in base
  16 when \<^verbatim>\<open>is_hex\<close> is true and in base 10 otherwise (None where \<^verbatim>\<open>int\<close> raises). Digits
  after \<^verbatim>\<open>0x\<close> are read as a hexadecimal number, plain digits as a decimal number. So
  \<^verbatim>\<open>{"result":"0x10"}\<close> gives 16 with \<^verbatim>\<open>is_hex\<close> true, and \<^verbatim>\<open>{"result":"16"}\<close> gives 16
  with \<^verbatim>\<open>is_hex\<close> false.
\<close>

theorem fetch_block_height_decodes:
  assumes "fst (requests_post url body w) = Responds (Json (PDict d))"
      and "map_of d ''result'' = Some (PStr s)"
  shows "fst (fetch_block_height url body hex w) = Inr (int_of_str (if hex then 16 else 10) s)
       \<and> (\<forall>ds. hex \<and> s = ''0x'' @ ds \<and> ds \<noteq> [] \<and> list_all (is_digit 16) ds \<longrightarrow>
            fst (fetch_block_height url body hex w) = Inr (Some (int (digits_value 16 ds))))
       \<and> (\<not> hex \<and> s \<noteq> [] \<and> list_all (is_digit 10) s \<and> length s \<le> int_max_str_digits \<longrightarrow>
            fst (fetch_block_height url body hex w) = Inr (Some (int (digits_value 10 s))))
       \<and> (hex \<and> s = ''0x10'' \<longrightarrow> fst (fetch_block_height url body hex w) = Inr (Some 16))
       \<and> (\<not> hex \<and> s = ''16'' \<longrightarrow> fst (fetch_block_height url body hex w) = Inr (Some 16))"
proof -
  have g: "fst (fetch_block_height url body hex w) = Inr (int_of_str (if hex then 16 else 10) s)"
    using assms by (rule fetch_block_height_string)
  have h: "int_of_str 16 (''0x'' @ ds) = Some (int (digits_value 16 ds))"
    if "ds \<noteq> []" "list_all (is_digit 16) ds" for ds
    using parse_int_plain [of ds 16 "''0x'' @ ds"] that by (simp add: int_of_str_def)
  have t: "int_of_str 10 s = Some (int (digits_value 10 s))"
    if "s \<noteq> []" "list_all (is_digit 10) s" "length s \<le> int_max_str_digits"
    using parse_int_plain [of s 10 s] that by (simp add: int_of_str_def)
  from g h t show ?thesis
    by (auto simp add: int_of_str_0x10 int_of_str_16)
qed

theorem fetch_block_height_decodes_witness:
  "fst (fetch_block_height ''http://127.0.0.1:8545'' eth_body True
          (scripted [Responds (Json (PDict [(''result'', PStr ''0x10'')]))])) = Inr (Some 16) \<and>
   fst (fetch_block_height ''http://127.0.0.1:8899'' eth_body False
          (scripted [Responds (Json (PDict [(''result'', PStr ''16'')]))])) = Inr (Some 16) \<and>
   fst (fetch_block_height ''http://127.0.0.1:8899'' eth_body False
          (scripted [Responds (Json (PDict [(''result'', PStr ''10'')]))])) = Inr (Some 10) \<and>
   fst (fetch_block_height ''http://127.0.0.1:8545'' eth_body True
          (scripted [Responds (Json (PDict [(''result'', PStr ''10'')]))])) = Inr (Some 16)"
proof -
  have r: "fst (requests_post u eth_body (scripted [Responds (Json (PDict [(''result'', PStr s)]))]))
             = Responds (Json (PDict [(''result'', PStr s)]))" for u s
    by (simp add: scripted_answer)
  have m: "map_of [(''result'', PStr s)] ''result'' = Some (PStr s)" for s
    by simp
  have x: "int_of_str 10 ''10'' = Some 10" "int_of_str 16 ''10'' = Some 16"
    by code_simp+
  have a: "fst (fetch_block_height ''http://127.0.0.1:8545'' eth_body True
          (scripted [Responds (Json (PDict [(''result'', PStr ''0x10'')]))])) = Inr (Some 16)"
    using fetch_block_height_decodes [OF r [of "''http://127.0.0.1:8545''" "''0x10''"] m [of "''0x10''"], where hex = True]
    by (simp add: int_of_str_0x10)
  have b: "fst (fetch_block_height ''http://127.0.0.1:8899'' eth_body False
          (scripted [Responds (Json (PDict [(''result'', PStr ''16'')]))])) = Inr (Some 16)"
    using fetch_block_height_decodes [OF r [of "''http://127.0.0.1:8899''" "''16''"] m [of "''16''"], where hex = False]
    by (simp add: int_of_str_16)
  have c: "fst (fetch_block_height ''http://127.0.0.1:8899'' eth_body False
          (scripted [Responds (Json (PDict [(''result'', PStr ''10'')]))])) = Inr (Some 10)"
    using fetch_block_height_decodes [OF r [of "''http://127.0.0.1:8899''" "''10''"] m [of "''10''"], where hex = False]
    by (simp add: x)
  have d: "fst (fetch_block_height ''http://127.0.0.1:8545'' eth_body True
          (scripted [Responds (Json (PDict [(''result'', PStr ''10'')]))])) = Inr (Some 16)"
    using fetch_block_height_decodes [OF r [of "''http://127.0.0.1:8545''" "''10''"] m [of "''10''"], where hex = True]
    by (simp add: x)
  from a b c d show ?thesis by blast
qed

text \<open>
  C4. When the post raises an \<^verbatim>\<open>Exception\<close> (every transport error of the HTTP library is
  one), when the body is not JSON, and when the JSON has no \<^verbatim>\<open>result\<close> (it is not an
  object, or the key is missing or null), the fetcher returns None: the result is a value
  (\<open>Inr\<close>), not a raised exception (\<open>Inl\<close>).
\<close>

theorem fetch_block_height_absent_on_failure:
  assumes "(\<exists>e. fst (requests_post url body w) = Raises e \<and> is_Exception (exc_class e))
         \<or> (\<exists>m. fst (requests_post url body w) = Responds (Not_json m))
         \<or> (\<exists>j. fst (requests_post url body w) = Responds (Json j)
                \<and> (\<forall>d. j = PDict d \<longrightarrow>
                      map_of d ''result'' = None \<or> map_of d ''result'' = Some PNone))"
  shows "fst (fetch_block_height url body hex w) = Inr None"
proof -
  from assms consider
      (transport) e where "fst (requests_post url body w) = Raises e" "is_Exception (exc_class e)"
    | (not_json) m where "fst (requests_post url body w) = Responds (Not_json m)"
    | (no_result) j where "fst (requests_post url body w) = Responds (Json j)"
        "\<forall>d. j = PDict d \<longrightarrow> map_of d ''result'' = None \<or> map_of d ''result'' = Some PNone"
    by blast
  then show ?thesis
  proof cases
    case transport
    then show ?thesis
      by (simp add: fetch_block_height_result fetch_block_height_try_def)
  next
    case not_json
    then show ?thesis
      by (simp add: fetch_block_height_result fetch_block_height_try_def)
  next
    case no_result
    then show ?thesis
      by (cases j) (auto simp add: fetch_block_height_result fetch_block_height_try_def py_get_def)
  qed
qed

theorem fetch_block_height_absent_on_failure_witness:
  "fst (fetch_block_height ''http://127.0.0.1:8545'' eth_body True
          (scripted [Raises (PyExc RequestException ''Connection refused'')])) = Inr None \<and>
   fst (fetch_block_height ''http://127.0.0.1:8545'' eth_body True
          (scripted [Responds (Not_json ''Expecting value: line 1 column 1 (char 0)'')])) = Inr None \<and>
   fst (fetch_block_height ''http://127.0.0.1:8545'' eth_body True
          (scripted [Responds (Json (PDict [(''error'', PStr ''method not found'')]))])) = Inr None"
proof -
  have a: "fst (fetch_block_height ''http://127.0.0.1:8545'' eth_body True
          (scripted [Raises (PyExc RequestException ''Connection refused'')])) = Inr None"
    by (rule fetch_block_height_absent_on_failure) (simp add: scripted_answer)
  have b: "fst (fetch_block_height ''http://127.0.0.1:8545'' eth_body True
          (scripted [Responds (Not_json ''Expecting value: line 1 column 1 (char 0)'')])) = Inr None"
    by (rule fetch_block_height_absent_on_failure) (simp add: scripted_answer)
  have c: "fst (fetch_block_height ''http://127.0.0.1:8545'' eth_body True
          (scripted [Responds (Json (PDict [(''error'', PStr ''method not found'')]))])) = Inr None"
    by (rule fetch_block_height_absent_on_failure) (simp add: scripted_answer)
  from a b c show ?thesis by blast
qed

text \<open>
  The only exception that leaves the fetcher is one the post itself raised and that is not
  an \<^verbatim>\<open>Exception\<close>.
\<close>

text \<open>
  The only exception that leaves the fetcher is one the post itself raised and that is not
  an \<^verbatim>\<open>Exception\<close>.
\<close>

lemma try_raises:
  "fetch_block_height_try outcome hex = Inl e \<Longrightarrow>
   outcome = Raises e \<or> is_Exception (exc_class e)"
  by (auto simp add: fetch_block_height_try_def py_get_def py_int_base16_def py_int_def
      dest!: py_int_str_Inl
      split: sum.splits if_splits post_outcome.splits reply.splits pyval.splits pyfloat.splits)

lemma fetch_block_height_raises:
  "fst (fetch_block_height url body hex w) = Inl e \<Longrightarrow>
   fst (requests_post url body w) = Raises e \<and> \<not> is_Exception (exc_class e)"
  by (auto simp add: fetch_block_height_result split: sum.splits if_splits dest: try_raises)

subsection \<open>Logging\<close>

lemma try_absent_iff:
  "fetch_block_height_try outcome hex = Inr None \<longleftrightarrow> result_missing outcome"
  by (auto simp add: fetch_block_height_try_def result_missing_def py_get_def
      split: post_outcome.splits reply.splits pyval.splits sum.splits option.splits if_splits)

lemma logged_requests_post: "logged (snd (requests_post url body w)) = logged w"
  by (simp add: requests_post_snd)

text \<open>
  A JSON object without \<^verbatim>\<open>result\<close> makes the call fail (None is returned) and nothing is
  logged: the return for a missing result is taken before any exception is raised.
\<close>

theorem fetch_block_height_missing_result_silent:
  "fst (fetch_block_height ''http://127.0.0.1:8545'' eth_body True
          (scripted [Responds (Json (PDict [(''error'', PStr ''method not found'')]))])) = Inr None \<and>
   logged (snd (fetch_block_height ''http://127.0.0.1:8545'' eth_body True
          (scripted [Responds (Json (PDict [(''error'', PStr ''method not found'')]))]))) = []"
proof -
  let ?w = "scripted [Responds (Json (PDict [(''error'', PStr ''method not found'')]))]"
  have "fetch_block_height ''http://127.0.0.1:8545'' eth_body True ?w =
          (Inr None, snd (requests_post ''http://127.0.0.1:8545'' eth_body ?w))"
    by (simp add: fetch_block_height_unfold scripted_answer fetch_block_height_try_def py_get_def)
  moreover have "logged ?w = []"
    by (simp add: scripted_def)
  ultimately show ?thesis
    by (simp add: logged_requests_post)
qed

text \<open>
  C7, as the code has it. A call that returns None has written exactly one ERROR record,
  and the record contains the URL, unless the answer was a JSON object whose \<^verbatim>\<open>result\<close>
  is missing or null: then nothing is logged. A call that returns a height logs nothing.
\<close>

theorem fetch_block_height_logging:
  assumes "fetch_block_height url body hex w = (res, w')"
  shows "(res = Inr None \<and> \<not> result_missing (fst (requests_post url body w)) \<longrightarrow>
            (\<exists>line. logged w' = logged w @ [(ERROR, Text line)] \<and> sublist url line))
       \<and> (res = Inr None \<and> result_missing (fst (requests_post url body w)) \<longrightarrow>
            logged w' = logged w)
       \<and> (\<forall>n. res = Inr (Some n) \<longrightarrow> logged w' = logged w)"
proof (cases "fetch_block_height_try (fst (requests_post url body w)) hex")
  case (Inr r)
  with assms have eq: "res = Inr r" "w' = snd (requests_post url body w)"
    by (simp_all add: fetch_block_height_unfold)
  from Inr have "r = None \<longleftrightarrow> result_missing (fst (requests_post url body w))"
    using try_absent_iff [of "fst (requests_post url body w)" hex] by auto
  with eq show ?thesis
    by (auto simp add: logged_requests_post)
next
  case (Inl e)
  then have nm: "\<not> result_missing (fst (requests_post url body w))"
    using try_absent_iff [of "fst (requests_post url body w)" hex] by auto
  show ?thesis
  proof (cases "is_Exception (exc_class e)")
    case True
    with Inl assms have eq: "res = Inr None"
      "w' = logging_error (''Failed to fetch block height from '' @ url @ '': '' @ exc_str e)
              (snd (requests_post url body w))"
      by (simp_all add: fetch_block_height_unfold)
    have "sublist url (''Failed to fetch block height from '' @ url @ '': '' @ exc_str e)"
      by (rule sublist_appendI)
    moreover have "logged w' =
        logged w @ [(ERROR, Text (''Failed to fetch block height from '' @ url @ '': '' @ exc_str e))]"
      by (simp add: eq logging_error_def logged_requests_post)
    ultimately show ?thesis using eq nm by blast
  next
    case False
    with Inl assms have "res = Inl e" by (simp add: fetch_block_height_unfold)
    then show ?thesis by simp
  qed
qed

theorem fetch_block_height_logging_witness:
  "\<exists>line. logged (snd (fetch_block_height ''http://127.0.0.1:8545'' eth_body True
                (scripted [Responds (Not_json ''Expecting value'')])))
            = [(ERROR, Text line)] \<and> sublist ''http://127.0.0.1:8545'' line"
proof -
  let ?w = "scripted [Responds (Not_json ''Expecting value'')]"
  let ?u = "''http://127.0.0.1:8545''"
  obtain res w' where f: "fetch_block_height ?u eth_body True ?w = (res, w')"
    by (cases "fetch_block_height ?u eth_body True ?w")
  have r: "res = Inr None"
    using f by (simp add: fetch_block_height_unfold scripted_answer fetch_block_height_try_def)
  have m: "\<not> result_missing (fst (requests_post ?u eth_body ?w))"
    by (simp add: scripted_answer result_missing_def)
  have l: "logged ?w = []" by (simp add: scripted_def)
  from fetch_block_height_logging [OF f] r m l
  have "\<exists>line. logged w' = [(ERROR, Text line)] \<and> sublist ?u line" by simp
  with f show ?thesis by simp
qed

subsection \<open>The sign of a height\<close>

lemma strip_sign_neg: "strip_sign s = (True, r) \<Longrightarrow> CHR ''-'' \<in> set s"
  by (cases s) (auto simp add: strip_sign_def split: if_splits)

lemma int_of_str_nonneg:
  assumes "CHR ''-'' \<notin> set s" and "int_of_str base s = Some n"
  shows "0 \<le> n"
proof -
  obtain neg s1 where sg: "strip_sign (dropWhile int_space s) = (neg, s1)"
    by (cases "strip_sign (dropWhile int_space s)")
  have "\<not> neg"
  proof
    assume neg
    with sg have "CHR ''-'' \<in> set (dropWhile int_space s)"
      by (auto dest: strip_sign_neg)
    then have "CHR ''-'' \<in> set s"
      by (rule set_dropWhileD)
    with assms(1) show False by simp
  qed
  with assms(2) sg show ?thesis
    by (auto simp add: int_of_str_def parse_int_def Let_def split: if_splits)
qed

lemma float_trunc_nonneg: "0 \<le> m \<Longrightarrow> 0 \<le> float_trunc m e"
  by (simp add: float_trunc_def sgn_if pos_imp_zdiv_nonneg_iff)

lemma int_of_str_minus_0x10: "int_of_str 16 ''-0x10'' = Some (- 16)"
  by code_simp

lemma int_of_str_minus_16: "int_of_str 10 ''-16'' = Some (- 16)"
  by code_simp

text \<open>
  A \<^verbatim>\<open>result\<close> of \<^verbatim>\<open>"-0x10"\<close> is read as the height -16: the fetcher checks no sign.
\<close>

theorem fetch_block_height_negative:
  "fst (fetch_block_height ''http://127.0.0.1:8545'' eth_body True
          (scripted [Responds (Json (PDict [(''result'', PStr ''-0x10'')]))])) = Inr (Some (- 16))"
proof -
  have "fst (requests_post ''http://127.0.0.1:8545'' eth_body
               (scripted [Responds (Json (PDict [(''result'', PStr ''-0x10'')]))]))
          = Responds (Json (PDict [(''result'', PStr ''-0x10'')]))"
    by (simp add: scripted_answer)
  moreover have "map_of [(''result'', PStr ''-0x10'')] ''result'' = Some (PStr ''-0x10'')"
    by simp
  ultimately show ?thesis
    by (simp add: fetch_block_height_string int_of_str_minus_0x10)
qed

text \<open>
  C8, as the code has it. A height the fetcher returns is not below zero whenever the
  \<^verbatim>\<open>result\<close> it was read from carries no minus sign: a string without the character
  \<^verbatim>\<open>-\<close>, a number that is not negative, a boolean. The sign is not checked:
  \<^verbatim>\<open>"-0x10"\<close> on the hexadecimal path and \<^verbatim>\<open>"-16"\<close> on the decimal path are each returned
  as -16.
\<close>

theorem fetch_block_height_nonneg:
  assumes "fst (requests_post url body w) = Responds (Json j)"
      and "py_get j ''result'' = Inr v"
  shows "(\<forall>n. unsigned_result v \<and> fst (fetch_block_height url body hex w) = Inr (Some n)
            \<longrightarrow> 0 \<le> n)
       \<and> (v = PStr ''-0x10'' \<and> hex \<longrightarrow>
            fst (fetch_block_height url body hex w) = Inr (Some (- 16)))
       \<and> (v = PStr ''-16'' \<and> \<not> hex \<longrightarrow>
            fst (fetch_block_height url body hex w) = Inr (Some (- 16)))"
proof -
  have conv: "(if hex then py_int_base16 v else py_int v) = Inr n"
    if "fst (fetch_block_height url body hex w) = Inr (Some n)" for n
    using assms that
    by (auto simp add: fetch_block_height_result fetch_block_height_try_def
        split: sum.splits if_splits)
  have nonneg: "0 \<le> n"
    if u: "unsigned_result v" and f: "fst (fetch_block_height url body hex w) = Inr (Some n)" for n
  proof (cases hex)
    case True
    with conv [OF f] obtain s where "v = PStr s" "int_of_str 16 s = Some n"
      by (auto simp add: py_int_base16_def py_int_str_Inr split: pyval.splits)
    with u show ?thesis
      by (auto simp add: unsigned_result_def intro: int_of_str_nonneg)
  next
    case False
    with conv [OF f] have "py_int v = Inr n" by simp
    with u show ?thesis
      by (auto simp add: py_int_def unsigned_result_def float_trunc_nonneg py_int_str_Inr
          split: pyval.splits pyfloat.splits if_splits
          intro: int_of_str_nonneg)
  qed
  have tr: "fetch_block_height_try (Responds (Json j)) hex =
               (case (if hex then py_int_base16 (PStr s) else py_int (PStr s)) of
                  Inl e \<Rightarrow> Inl e | Inr n \<Rightarrow> Inr (Some n))"
    if "v = PStr s" for s
    using assms(2) that by (simp add: fetch_block_height_try_def)
  have hexcase: "fst (fetch_block_height url body hex w) = Inr (Some (- 16))"
    if "v = PStr ''-0x10''" "hex"
    using assms(1) tr [OF that(1)] that(2) py_int_str_Inr [of 16 "''-0x10''" "- 16"]
    by (simp add: fetch_block_height_result py_int_base16_def int_of_str_minus_0x10)
  have deccase: "fst (fetch_block_height url body hex w) = Inr (Some (- 16))"
    if "v = PStr ''-16''" "\<not> hex"
    using assms(1) tr [OF that(1)] that(2) py_int_str_Inr [of 10 "''-16''" "- 16"]
    by (simp add: fetch_block_height_result py_int_def int_of_str_minus_16)
  from nonneg hexcase deccase show ?thesis by blast
qed

theorem fetch_block_height_nonneg_witness:
  "(0::int) \<le> 16 \<and>
   fst (fetch_block_height ''http://127.0.0.1:8545'' eth_body True
          (scripted [Responds (Json (PDict [(''result'', PStr ''0x10'')]))])) = Inr (Some 16) \<and>
   fst (fetch_block_height ''http://127.0.0.1:8899'' eth_body False
          (scripted [Responds (Json (PDict [(''result'', PStr ''-16'')]))])) = Inr (Some (- 16))"
proof -
  let ?w = "scripted [Responds (Json (PDict [(''result'', PStr ''0x10'')]))]"
  let ?w' = "scripted [Responds (Json (PDict [(''result'', PStr ''-16'')]))]"
  have a: "fst (requests_post ''http://127.0.0.1:8545'' eth_body ?w)
             = Responds (Json (PDict [(''result'', PStr ''0x10'')]))"
    by (simp add: scripted_answer)
  have b: "py_get (PDict [(''result'', PStr ''0x10'')]) ''result'' = Inr (PStr ''0x10'')"
    by (simp add: py_get_def)
  have c: "unsigned_result (PStr ''0x10'')"
    by (simp add: unsigned_result_def)
  have m: "map_of [(''result'', PStr ''0x10'')] ''result'' = Some (PStr ''0x10'')"
    by simp
  have d: "fst (fetch_block_height ''http://127.0.0.1:8545'' eth_body True ?w) = Inr (Some 16)"
    using fetch_block_height_string [OF a m, of True] by (simp add: int_of_str_0x10)
  have a': "fst (requests_post ''http://127.0.0.1:8899'' eth_body ?w')
             = Responds (Json (PDict [(''result'', PStr ''-16'')]))"
    by (simp add: scripted_answer)
  have b': "py_get (PDict [(''result'', PStr ''-16'')]) ''result'' = Inr (PStr ''-16'')"
    by (simp add: py_get_def)
  from fetch_block_height_nonneg [OF a b, of True] c d have "(0::int) \<le> 16" by blast
  moreover from fetch_block_height_nonneg [OF a' b', of False]
  have "fst (fetch_block_height ''http://127.0.0.1:8899'' eth_body False ?w') = Inr (Some (- 16))"
    by blast
  ultimately show ?thesis using d by blast
qed

subsection \<open>Numbers in the result\<close>

lemma try_number_result:
  "map_of d ''result'' = Some v \<Longrightarrow> v \<noteq> PNone \<Longrightarrow>
   fetch_block_height_try (Responds (Json (PDict d))) hex =
     (case (if hex then py_int_base16 v else py_int v) of
        Inl e \<Rightarrow> Inl e
      | Inr n \<Rightarrow> Inr (Some n))"
  by (simp add: fetch_block_height_try_def py_get_def)

text \<open>
  A \<^verbatim>\<open>result\<close> of 1.5 (the float \<open>3 * 2 ^ -1\<close>) is a JSON number, and the decimal path
  returns 1, which is not that number.
\<close>

theorem fetch_block_height_truncates_fraction:
  "fst (fetch_block_height ''http://127.0.0.1:8899'' eth_body False
          (scripted [Responds (Json (PDict [(''result'', PFloat (Finite 3 (- 1)))]))])) = Inr (Some 1) \<and>
   \<not> same_number 1 (PFloat (Finite 3 (- 1)))"
  by (simp add: fetch_block_height_result scripted_answer try_number_result py_int_def
        float_trunc_def same_number_def)

text \<open>
  C10, as the code has it. For a JSON integer in \<^verbatim>\<open>result\<close> the decimal path returns the
  integer and the hexadecimal path returns None. For a finite float the decimal path
  returns it rounded toward zero and the hexadecimal path returns None. For an infinity
  or NaN both paths return None.
\<close>

theorem fetch_block_height_json_number:
  assumes "fst (requests_post url body w) = Responds (Json (PDict d))"
      and "map_of d ''result'' = Some v"
  shows "(\<forall>i. v = PInt i \<longrightarrow>
            fst (fetch_block_height url body False w) = Inr (Some i) \<and>
            fst (fetch_block_height url body True w) = Inr None)
       \<and> (\<forall>m e. v = PFloat (Finite m e) \<longrightarrow>
            fst (fetch_block_height url body False w) = Inr (Some (float_trunc m e)) \<and>
            fst (fetch_block_height url body True w) = Inr None)
       \<and> (\<forall>f. v = PFloat f \<and> (\<forall>m e. f \<noteq> Finite m e) \<longrightarrow>
            fst (fetch_block_height url body False w) = Inr None \<and>
            fst (fetch_block_height url body True w) = Inr None)"
proof (intro conjI allI impI)
  fix i assume "v = PInt i"
  with assms show "fst (fetch_block_height url body False w) = Inr (Some i)"
    by (simp add: fetch_block_height_result try_number_result py_int_def)
  from \<open>v = PInt i\<close> assms show "fst (fetch_block_height url body True w) = Inr None"
    by (simp add: fetch_block_height_result try_number_result py_int_base16_def)
next
  fix m e assume "v = PFloat (Finite m e)"
  with assms show "fst (fetch_block_height url body False w) = Inr (Some (float_trunc m e))"
    by (simp add: fetch_block_height_result try_number_result py_int_def)
  from \<open>v = PFloat (Finite m e)\<close> assms show "fst (fetch_block_height url body True w) = Inr None"
    by (simp add: fetch_block_height_result try_number_result py_int_base16_def)
next
  fix f assume h: "v = PFloat f \<and> (\<forall>m e. f \<noteq> Finite m e)"
  with assms show "fst (fetch_block_height url body False w) = Inr None"
    by (cases f) (simp_all add: fetch_block_height_result try_number_result py_int_def)
  from h assms show "fst (fetch_block_height url body True w) = Inr None"
    by (simp add: fetch_block_height_result try_number_result py_int_base16_def)
qed

text \<open>A float without a fractional part is returned as the number it is.\<close>

lemma float_trunc_exact:
  assumes "0 \<le> e \<or> 2 ^ nat (- e) dvd m"
  shows "same_number (float_trunc m e) (PFloat (Finite m e))"
proof (cases "0 \<le> e")
  case True
  then show ?thesis by (simp add: same_number_def float_trunc_def)
next
  case False
  with assms obtain k where k: "m = 2 ^ nat (- e) * k" by (auto elim: dvdE)
  have "sgn m * (\<bar>m\<bar> div 2 ^ nat (- e)) * 2 ^ nat (- e) = m"
    by (simp add: k abs_mult sgn_mult mult.commute mult.left_commute flip: mult.assoc)
      (metis abs_sgn mult.commute sgn_mult_abs)
  with False show ?thesis by (simp add: same_number_def float_trunc_def)
qed

theorem fetch_block_height_json_number_witness:
  "fst (fetch_block_height ''http://127.0.0.1:8899'' eth_body False
          (scripted [Responds (Json (PDict [(''result'', PInt 16)]))])) = Inr (Some 16) \<and>
   fst (fetch_block_height ''http://127.0.0.1:8899'' eth_body True
          (scripted [Responds (Json (PDict [(''result'', PInt 16)]))])) = Inr None"
proof -
  let ?w = "scripted [Responds (Json (PDict [(''result'', PInt 16)]))]"
  have a: "fst (requests_post ''http://127.0.0.1:8899'' eth_body ?w)
             = Responds (Json (PDict [(''result'', PInt 16)]))"
    by (simp add: scripted_answer)
  have b: "map_of [(''result'', PInt 16)] ''result'' = Some (PInt 16)"
    by simp
  from fetch_block_height_json_number [OF a b] show ?thesis by blast
qed

section \<open>The metrics calculator: results\<close>

subsection \<open>The limit on decimal text\<close>

lemma printable_small: "\<bar>i\<bar> < 10 ^ 3 \<Longrightarrow> printable i"
proof -
  assume a: "\<bar>i\<bar> < 10 ^ 3"
  have "3 \<le> int_max_str_digits" by (simp add: int_max_str_digits_def)
  then have "(10::int) ^ 3 \<le> 10 ^ int_max_str_digits"
    by (intro power_increasing) simp_all
  with a show ?thesis unfolding printable_def by linarith
qed

lemma py_str_int_eq:
  "py_str_int i = (if printable i then Inr (dec_str i) else Inl str_limit_error)"
  by (simp add: py_str_int_def printable_def not_less)

lemma huge_height_not_printable: "\<not> printable huge_height"
proof -
  have a: "(10::int) ^ 43 \<le> 16 ^ 36" by simp
  have "((10::int) ^ 43) ^ 100 \<le> (16 ^ 36) ^ 100"
    by (rule power_mono [OF a]) simp
  then have b: "(10::int) ^ (43 * 100) \<le> 16 ^ (36 * 100)"
    by (simp only: power_mult)
  have e: "(43::nat) * 100 = 4300" "(36::nat) * 100 = 3600" by simp_all
  from b have c: "(10::int) ^ 4300 \<le> 16 ^ 3600" by (simp only: e)
  have d: "\<bar>(16::int) ^ 3600\<bar> = 16 ^ 3600" by (rule abs_of_nonneg) (rule zero_le_power, simp)
  from c d show ?thesis
    by (simp only: printable_def huge_height_def int_max_str_digits_def not_less)
qed

lemma digits_value_one_zeros:
  "digits_value 16 (CHR ''1'' # replicate k (CHR ''0'')) = 16 ^ k"
proof (induction k)
  case 0
  show ?case by (simp add: digits_value_def digit_value_def)
next
  case (Suc k)
  have z: "digit_value (CHR ''0'') = Some 0" by (simp add: digit_value_def)
  have "CHR ''1'' # replicate (Suc k) (CHR ''0'') = (CHR ''1'' # replicate k (CHR ''0'')) @ [CHR ''0'']"
    by (simp add: replicate_append_same)
  then show ?case
    using digits_value_snoc [OF z, of 16 "CHR ''1'' # replicate k (CHR ''0'')"] Suc by simp
qed

lemma int_of_str_huge:
  "int_of_str 16 (''0x1'' @ replicate 3600 (CHR ''0'')) = Some huge_height"
proof -
  have d: "is_digit 16 (CHR ''1'')" "is_digit 16 (CHR ''0'')"
    by (simp_all add: is_digit_def digit_value_def)
  then have all: "list_all (is_digit 16) (CHR ''1'' # replicate 3600 (CHR ''0''))"
    by (simp add: list_all_iff)
  have "parse_int 16 (''0x'' @ CHR ''1'' # replicate 3600 (CHR ''0''))
          = Parsed (int (digits_value 16 (CHR ''1'' # replicate 3600 (CHR ''0''))))"
    by (rule parse_int_plain [OF _ all]) simp_all
  then show ?thesis
    by (simp add: int_of_str_def digits_value_one_zeros huge_height_def del: power_numeral)
qed

subsection \<open>Lines\<close>

lemma text_lines_line:
  "CHR 0x0A \<notin> set s \<Longrightarrow> text_lines (s @ CHR 0x0A # rest) = s # text_lines rest"
  by (induction s) auto

lemma digit_char_no_newline: "k < 10 \<Longrightarrow> char_of (48 + k) \<noteq> CHR 0x0A" for k :: nat
proof
  assume k: "k < 10" and "char_of (48 + k) = CHR 0x0A"
  then have "(of_char (char_of (48 + k) :: char) :: nat) = of_char (CHR 0x0A)" by simp
  with k show False by simp
qed

lemma dec_digits_no_newline: "CHR 0x0A \<notin> set (dec_digits n)"
proof (induction n rule: dec_digits.induct)
  case (1 n)
  show ?case
  proof (cases "n < 10")
    case True
    then have "dec_digits n = [char_of (48 + n)]" by (subst dec_digits.simps) simp
    with True digit_char_no_newline [of n] show ?thesis by auto
  next
    case False
    then have eq: "dec_digits n = dec_digits (n div 10) @ [char_of (48 + n mod 10)]"
      by (subst dec_digits.simps) simp
    from False 1 have "CHR 0x0A \<notin> set (dec_digits (n div 10))" by simp
    moreover have "char_of (48 + n mod 10) \<noteq> CHR 0x0A" by (rule digit_char_no_newline) simp
    ultimately show ?thesis by (auto simp add: eq)
  qed
qed

lemma dec_str_no_newline: "CHR 0x0A \<notin> set (dec_str i)"
  by (simp add: dec_str_def dec_digits_no_newline)

lemma gauge_sample_no_newline:
  "CHR 0x0A \<notin> set name \<Longrightarrow> CHR 0x0A \<notin> set c \<Longrightarrow> CHR 0x0A \<notin> set (gauge_sample name c v)"
  by (simp add: gauge_sample_def dec_str_no_newline)

lemma error_comment_no_newline: "CHR 0x0A \<notin> set c \<Longrightarrow> CHR 0x0A \<notin> set (error_comment c)"
  by (simp add: error_comment_def)

subsection \<open>The text returned\<close>

lemma calculate_metrics_unfold:
  "calculate_metrics c local_url remote_url body hex w =
     (case fst (fetch_block_height remote_url body hex w) of
        Inl e \<Rightarrow> (Inl e, snd (fetch_block_height remote_url body hex w))
      | Inr remote_block \<Rightarrow>
          (case fst (fetch_block_height local_url body hex
                       (snd (fetch_block_height remote_url body hex w))) of
             Inl e \<Rightarrow> (Inl e, snd (fetch_block_height local_url body hex
                                     (snd (fetch_block_height remote_url body hex w))))
           | Inr local_block \<Rightarrow>
               ((case (remote_block, local_block) of
                   (Some r, Some l) \<Rightarrow>
                     if printable l \<and> printable r \<and> printable (r - l)
                     then Inr (gauge_sample ''chain_block_height_local'' c l @ [CHR 0x0A]
                               @ gauge_sample ''chain_block_height_remote'' c r @ [CHR 0x0A]
                               @ gauge_sample ''chain_block_height_drift'' c (r - l) @ [CHR 0x0A])
                     else Inl str_limit_error
                 | _ \<Rightarrow> Inr (error_comment c @ [CHR 0x0A])),
                snd (fetch_block_height local_url body hex
                       (snd (fetch_block_height remote_url body hex w))))))"
proof -
  obtain r1 w1 where f1: "fetch_block_height remote_url body hex w = (r1, w1)"
    by (cases "fetch_block_height remote_url body hex w")
  obtain r2 w2 where f2: "fetch_block_height local_url body hex w1 = (r2, w2)"
    by (cases "fetch_block_height local_url body hex w1")
  show ?thesis
    by (cases r1; cases r2)
       (simp_all add: calculate_metrics_def f1 f2 gauge_sample_def error_comment_def
          py_str_int_eq Let_def split: option.split)
qed

lemma fetch_block_height_upstream:
  "upstream (snd (fetch_block_height url body hex w)) = upstream w"
  by (simp add: fetch_block_height_unfold requests_post_snd logging_error_def split: sum.split)

lemma fetch_block_height_sent:
  "sent (snd (fetch_block_height url body hex w)) = sent w @ [posted url body]"
  by (simp add: fetch_block_height_unfold requests_post_snd logging_error_def split: sum.split)

lemma scripted_second:
  "fst (requests_post url' body' (snd (fetch_block_height url body hex (scripted (x # y # xs))))) = y"
proof -
  have "sent (scripted (x # y # xs)) = []" "upstream (scripted (x # y # xs)) 1 (posted url' body') = y"
    by (simp_all add: scripted_def)
  then show ?thesis
    by (simp add: requests_post_fst fetch_block_height_upstream fetch_block_height_sent)
qed

lemma scripted_huge_first:
  "fst (fetch_block_height url body True (scripted (huge_answer # xs))) = Inr (Some huge_height)"
proof -
  have "fst (requests_post url body (scripted (huge_answer # xs)))
          = Responds (Json (PDict [(''result'', PStr (''0x1'' @ replicate 3600 (CHR ''0'')))]))"
    by (simp only: scripted_answer huge_answer_def)
  moreover have "map_of [(''result'', PStr (''0x1'' @ replicate 3600 (CHR ''0'')))] ''result''
                   = Some (PStr (''0x1'' @ replicate 3600 (CHR ''0'')))"
    by simp
  ultimately have "fst (fetch_block_height url body True (scripted (huge_answer # xs)))
                     = Inr (int_of_str (if True then 16 else 10) (''0x1'' @ replicate 3600 (CHR ''0'')))"
    by (rule fetch_block_height_string)
  then show ?thesis by (simp only: int_of_str_huge if_True)
qed

lemma scripted_huge_second:
  "fst (fetch_block_height url' body' True
          (snd (fetch_block_height url body hex (scripted (x # huge_answer # xs)))))
     = Inr (Some huge_height)"
proof -
  have "fst (requests_post url' body' (snd (fetch_block_height url body hex (scripted (x # huge_answer # xs)))))
          = Responds (Json (PDict [(''result'', PStr (''0x1'' @ replicate 3600 (CHR ''0'')))]))"
    by (simp only: scripted_second huge_answer_def)
  moreover have "map_of [(''result'', PStr (''0x1'' @ replicate 3600 (CHR ''0'')))] ''result''
                   = Some (PStr (''0x1'' @ replicate 3600 (CHR ''0'')))"
    by simp
  ultimately have "fst (fetch_block_height url' body' True
          (snd (fetch_block_height url body hex (scripted (x # huge_answer # xs)))))
                     = Inr (int_of_str (if True then 16 else 10) (''0x1'' @ replicate 3600 (CHR ''0'')))"
    by (rule fetch_block_height_string)
  then show ?thesis by (simp only: int_of_str_huge if_True)
qed

lemma calculate_metrics_huge:
  "fst (calculate_metrics c local_url remote_url body True (scripted [huge_answer, huge_answer]))
     = Inl str_limit_error"
  by (simp add: calculate_metrics_unfold scripted_huge_first scripted_huge_second
        huge_height_not_printable)

text \<open>
  Both nodes answer with a height of 4335 decimal digits (\<^verbatim>\<open>0x1\<close> and 3600 zeros, which
  \<^verbatim>\<open>int(s, 16)\<close> reads without limit): both fetches succeed, and the calculator raises
  ValueError in the f-string instead of returning three gauge lines.
\<close>

theorem calculate_metrics_huge_heights_raise:
  "fst (fetch_block_height ''https://ethereum.llamarpc.com'' eth_body True
          (scripted [huge_answer, huge_answer])) = Inr (Some huge_height) \<and>
   fst (fetch_block_height ''http://127.0.0.1:8545'' eth_body True
          (snd (fetch_block_height ''https://ethereum.llamarpc.com'' eth_body True
                  (scripted [huge_answer, huge_answer])))) = Inr (Some huge_height) \<and>
   fst (calculate_metrics ''eth'' ''http://127.0.0.1:8545'' ''https://ethereum.llamarpc.com''
          eth_body True (scripted [huge_answer, huge_answer])) = Inl str_limit_error"
  by (simp only: scripted_huge_first scripted_huge_second calculate_metrics_huge simp_thms)

text \<open>
  C1, as the code has it. When both fetches return a height, and the two heights and their
  difference have no more than 4300 decimal digits, the calculator returns three gauge
  samples, each ended by a newline: \<^verbatim>\<open>chain_block_height_local\<close>,
  \<^verbatim>\<open>chain_block_height_remote\<close> and \<^verbatim>\<open>chain_block_height_drift\<close>, each with the chain as its
  label, the drift being the remote height minus the local one. For a chain name without a
  newline (every name of the registry) the text has exactly these three lines.
\<close>

theorem calculate_metrics_three_gauges:
  assumes "fst (fetch_block_height remote_url body hex w) = Inr (Some r)"
      and "fst (fetch_block_height local_url body hex
                  (snd (fetch_block_height remote_url body hex w))) = Inr (Some l)"
      and "printable l" and "printable r" and "printable (r - l)"
  shows "\<exists>out. fst (calculate_metrics c local_url remote_url body hex w) = Inr out
           \<and> out = gauge_sample ''chain_block_height_local'' c l @ [CHR 0x0A]
                   @ gauge_sample ''chain_block_height_remote'' c r @ [CHR 0x0A]
                   @ gauge_sample ''chain_block_height_drift'' c (r - l) @ [CHR 0x0A]
           \<and> (CHR 0x0A \<notin> set c \<longrightarrow>
                text_lines out = [gauge_sample ''chain_block_height_local'' c l,
                                  gauge_sample ''chain_block_height_remote'' c r,
                                  gauge_sample ''chain_block_height_drift'' c (r - l)])"
proof -
  let ?out = "gauge_sample ''chain_block_height_local'' c l @ [CHR 0x0A]
                   @ gauge_sample ''chain_block_height_remote'' c r @ [CHR 0x0A]
                   @ gauge_sample ''chain_block_height_drift'' c (r - l) @ [CHR 0x0A]"
  from assms have a: "fst (calculate_metrics c local_url remote_url body hex w) = Inr ?out"
    by (simp add: calculate_metrics_unfold)
  have b: "text_lines ?out = [gauge_sample ''chain_block_height_local'' c l,
                              gauge_sample ''chain_block_height_remote'' c r,
                              gauge_sample ''chain_block_height_drift'' c (r - l)]"
    if "CHR 0x0A \<notin> set c"
    using that by (simp add: text_lines_line gauge_sample_no_newline)
  from a b show ?thesis by blast
qed

lemma dec_str_100: "dec_str 100 = ''100''"
  by code_simp

lemma dec_str_105: "dec_str 105 = ''105''"
  by code_simp

lemma dec_str_5: "dec_str 5 = ''5''"
  by code_simp

theorem calculate_metrics_three_gauges_witness:
  "fst (calculate_metrics ''sol'' ''http://127.0.0.1:8899'' ''https://api.mainnet-beta.solana.com''
          (PDict [(''jsonrpc'', PStr ''2.0''), (''id'', PInt 1), (''method'', PStr ''getBlockHeight'')])
          False
          (scripted [Responds (Json (PDict [(''result'', PInt 105)])),
                     Responds (Json (PDict [(''result'', PInt 100)]))]))
     = Inr (''chain_block_height_local{chain=\"sol\"} 100'' @ [CHR 0x0A]
            @ ''chain_block_height_remote{chain=\"sol\"} 105'' @ [CHR 0x0A]
            @ ''chain_block_height_drift{chain=\"sol\"} 5'' @ [CHR 0x0A])"
proof -
  let ?w = "scripted [Responds (Json (PDict [(''result'', PInt 105)])),
                      Responds (Json (PDict [(''result'', PInt 100)]))]"
  let ?b = "PDict [(''jsonrpc'', PStr ''2.0''), (''id'', PInt 1), (''method'', PStr ''getBlockHeight'')]"
  have r: "fst (fetch_block_height ''https://api.mainnet-beta.solana.com'' ?b False ?w)
             = Inr (Some 105)"
    by (simp add: fetch_block_height_result scripted_answer try_number_result py_int_def)
  have l: "fst (fetch_block_height ''http://127.0.0.1:8899'' ?b False
                 (snd (fetch_block_height ''https://api.mainnet-beta.solana.com'' ?b False ?w)))
             = Inr (Some 100)"
    by (simp add: fetch_block_height_result scripted_second try_number_result py_int_def)
  have p: "printable 100" "printable 105" "printable (105 - 100)"
    by (rule printable_small, simp)+
  from calculate_metrics_three_gauges [OF r l p, of "''sol''"] show ?thesis
    by (simp add: gauge_sample_def dec_str_100 dec_str_105 dec_str_5)
qed

text \<open>
  C2. When the remote or the local fetch returns None, the calculator returns the error
  comment for the chain, ended by a newline, and nothing else: no gauge for the height
  that was fetched.
\<close>

theorem calculate_metrics_error_comment:
  assumes "fst (fetch_block_height remote_url body hex w) = Inr r"
      and "fst (fetch_block_height local_url body hex
                  (snd (fetch_block_height remote_url body hex w))) = Inr l"
      and "r = None \<or> l = None"
  shows "\<exists>out. fst (calculate_metrics c local_url remote_url body hex w) = Inr out
           \<and> out = error_comment c @ [CHR 0x0A]
           \<and> (CHR 0x0A \<notin> set c \<longrightarrow> text_lines out = [error_comment c])"
proof -
  from assms have a: "fst (calculate_metrics c local_url remote_url body hex w)
                        = Inr (error_comment c @ [CHR 0x0A])"
    by (auto simp add: calculate_metrics_unfold split: option.split)
  have b: "text_lines (error_comment c @ [CHR 0x0A]) = [error_comment c]" if "CHR 0x0A \<notin> set c"
    using that by (simp add: text_lines_line error_comment_no_newline)
  from a b show ?thesis by blast
qed

theorem calculate_metrics_error_comment_witness:
  "fst (calculate_metrics ''eth'' ''http://127.0.0.1:8545'' ''https://ethereum.llamarpc.com''
          eth_body True
          (scripted [Responds (Json (PDict [(''result'', PStr ''0x69'')])),
                     Raises (PyExc RequestException ''Connection refused'')]))
     = Inr (''# Error: could not retrieve block height for chain '' @ [CHR 0x27] @ ''eth''
            @ [CHR 0x27, CHR 0x0A])"
proof -
  let ?w = "scripted [Responds (Json (PDict [(''result'', PStr ''0x69'')])),
                      Raises (PyExc RequestException ''Connection refused'')]"
  have x: "int_of_str 16 ''0x69'' = Some 105" by code_simp
  have r: "fst (fetch_block_height ''https://ethereum.llamarpc.com'' eth_body True ?w)
             = Inr (Some 105)"
    using fetch_block_height_string [of "''https://ethereum.llamarpc.com''" eth_body ?w
            "[(''result'', PStr ''0x69'')]" "''0x69''" True]
    by (simp add: scripted_answer x)
  have l: "fst (fetch_block_height ''http://127.0.0.1:8545'' eth_body True
                 (snd (fetch_block_height ''https://ethereum.llamarpc.com'' eth_body True ?w)))
             = Inr None"
    by (simp add: fetch_block_height_result scripted_second fetch_block_height_try_def)
  have d: "Some (105::int) = None \<or> (None :: int option) = None" by simp
  from calculate_metrics_error_comment [OF r l d, of "''eth''"] show ?thesis
    by (simp add: error_comment_def)
qed

section \<open>Delivery: results\<close>

lemma fetch_block_height_returns:
  assumes "\<forall>n rq e. upstream w n rq = Raises e \<longrightarrow> is_Exception (exc_class e)"
  shows "\<exists>r. fst (fetch_block_height url body hex w) = Inr r"
proof (cases "fst (fetch_block_height url body hex w)")
  case (Inl e)
  then have "fst (requests_post url body w) = Raises e" "\<not> is_Exception (exc_class e)"
    by (auto dest: fetch_block_height_raises)
  with assms show ?thesis
    by (auto simp add: requests_post_fst)
next
  case (Inr r)
  then show ?thesis by blast
qed

lemma calculate_metrics_returns:
  assumes "\<forall>n rq e. upstream w n rq = Raises e \<longrightarrow> is_Exception (exc_class e)"
      and "\<forall>r l. fst (fetch_block_height remote_url body hex w) = Inr (Some r)
                 \<and> fst (fetch_block_height local_url body hex
                          (snd (fetch_block_height remote_url body hex w))) = Inr (Some l)
               \<longrightarrow> printable l \<and> printable r \<and> printable (r - l)"
  shows "\<exists>out. fst (calculate_metrics c local_url remote_url body hex w) = Inr out
           \<and> (out = error_comment c @ [CHR 0x0A]
              \<or> (\<exists>l r. out = gauge_sample ''chain_block_height_local'' c l @ [CHR 0x0A]
                        @ gauge_sample ''chain_block_height_remote'' c r @ [CHR 0x0A]
                        @ gauge_sample ''chain_block_height_drift'' c (r - l) @ [CHR 0x0A]))"
proof -
  from assms(1) obtain r1 where r1: "fst (fetch_block_height remote_url body hex w) = Inr r1"
    using fetch_block_height_returns by blast
  from assms(1) have "\<forall>n rq e. upstream (snd (fetch_block_height remote_url body hex w)) n rq = Raises e
                     \<longrightarrow> is_Exception (exc_class e)"
    by (simp add: fetch_block_height_upstream)
  then obtain r2 where r2: "fst (fetch_block_height local_url body hex
                                  (snd (fetch_block_height remote_url body hex w))) = Inr r2"
    using fetch_block_height_returns by blast
  show ?thesis
  proof (cases "r1 = None \<or> r2 = None")
    case True
    then have "fst (calculate_metrics c local_url remote_url body hex w)
                 = Inr (error_comment c @ [CHR 0x0A])"
      by (auto simp add: calculate_metrics_unfold r1 r2 split: option.split)
    then show ?thesis by blast
  next
    case False
    then obtain a b where ab: "r1 = Some a" "r2 = Some b" by auto
    with assms(2) r1 r2 have "printable b \<and> printable a \<and> printable (a - b)" by blast
    with ab have "fst (calculate_metrics c local_url remote_url body hex w)
                 = Inr (gauge_sample ''chain_block_height_local'' c b @ [CHR 0x0A]
                        @ gauge_sample ''chain_block_height_remote'' c a @ [CHR 0x0A]
                        @ gauge_sample ''chain_block_height_drift'' c (a - b) @ [CHR 0x0A])"
      by (simp add: calculate_metrics_unfold r1 r2)
    then show ?thesis by blast
  qed
qed

lemma metrics_unfold:
  "fst (metrics g w) =
     (case fst (calculate_metrics (chain (args g)) (local (config g)) (remote (config g))
                  (jsonrpc_body (config g)) (is_hex (config g)) w) of
        Inl e \<Rightarrow> Inl e
      | Inr output \<Rightarrow> Inr (Response (output @ [CHR 0x0A]) ''text/plain''))"
proof -
  obtain r w1 where c: "calculate_metrics (chain (args g)) (local (config g)) (remote (config g))
                  (jsonrpc_body (config g)) (is_hex (config g)) w = (r, w1)"
    by (cases "calculate_metrics (chain (args g)) (local (config g)) (remote (config g))
                  (jsonrpc_body (config g)) (is_hex (config g)) w")
  show ?thesis
    by (cases r) (simp_all add: metrics_def c)
qed

text \<open>
  Both nodes answer with a height of 4335 decimal digits: both fetches succeed, and the
  handler raises ValueError instead of returning a response (the framework then answers
  with status 500).
\<close>

theorem metrics_huge_heights_raise:
  "fst (metrics
          \<lparr>chain_configs = map_of CHAIN_CONFIGS,
           args = \<lparr>chain = ''eth'', serve = True, port = 9100, remote_arg = None, local_arg = None\<rparr>,
           config = \<lparr>local = ''http://127.0.0.1:8545'', remote = ''https://ethereum.llamarpc.com'',
                     is_hex = True, jsonrpc_body = eth_body\<rparr>\<rparr>
          (scripted [huge_answer, huge_answer]))
     = Inl str_limit_error"
  by (simp add: metrics_unfold calculate_metrics_huge)

text \<open>
  C9, as the code has it. Whatever the two fetches do, short of an interruption that is
  not an \<^verbatim>\<open>Exception\<close>, and provided that two heights that are both fetched have, like
  their difference, no more than 4300 decimal digits, the handler of \<^verbatim>\<open>/metrics\<close> returns a
  response with status 200 and mimetype \<^verbatim>\<open>text/plain\<close>, whose body is the text the
  calculator has just computed (the three gauges, or the error comment when a fetch
  failed) followed by one more newline.
\<close>

theorem metrics_responds_200:
  assumes "\<forall>n rq e. upstream w n rq = Raises e \<longrightarrow> is_Exception (exc_class e)"
      and "\<forall>r l. fst (fetch_block_height (remote (config g)) (jsonrpc_body (config g))
                          (is_hex (config g)) w) = Inr (Some r)
                 \<and> fst (fetch_block_height (local (config g)) (jsonrpc_body (config g))
                          (is_hex (config g))
                          (snd (fetch_block_height (remote (config g)) (jsonrpc_body (config g))
                                  (is_hex (config g)) w))) = Inr (Some l)
               \<longrightarrow> printable l \<and> printable r \<and> printable (r - l)"
  shows "\<exists>output.
           fst (calculate_metrics (chain (args g)) (local (config g)) (remote (config g))
                  (jsonrpc_body (config g)) (is_hex (config g)) w) = Inr output
         \<and> fst (metrics g w) =
             Inr \<lparr>status = 200, mimetype = ''text/plain'', data = output @ [CHR 0x0A]\<rparr>
         \<and> (output = error_comment (chain (args g)) @ [CHR 0x0A]
            \<or> (\<exists>l r. output =
                   gauge_sample ''chain_block_height_local'' (chain (args g)) l @ [CHR 0x0A]
                   @ gauge_sample ''chain_block_height_remote'' (chain (args g)) r @ [CHR 0x0A]
                   @ gauge_sample ''chain_block_height_drift'' (chain (args g)) (r - l) @ [CHR 0x0A]))"
proof -
  from calculate_metrics_returns [OF assms]
  obtain out where out:
    "fst (calculate_metrics (chain (args g)) (local (config g)) (remote (config g))
            (jsonrpc_body (config g)) (is_hex (config g)) w) = Inr out"
    "out = error_comment (chain (args g)) @ [CHR 0x0A]
     \<or> (\<exists>l r. out = gauge_sample ''chain_block_height_local'' (chain (args g)) l @ [CHR 0x0A]
                   @ gauge_sample ''chain_block_height_remote'' (chain (args g)) r @ [CHR 0x0A]
                   @ gauge_sample ''chain_block_height_drift'' (chain (args g)) (r - l) @ [CHR 0x0A])"
    by blast
  from out(1) have "fst (metrics g w) =
      Inr \<lparr>status = 200, mimetype = ''text/plain'', data = out @ [CHR 0x0A]\<rparr>"
    by (simp add: metrics_unfold Response_def)
  with out show ?thesis by blast
qed

theorem metrics_responds_200_witness:
  "fst (metrics
          \<lparr>chain_configs = map_of CHAIN_CONFIGS,
           args = \<lparr>chain = ''eth'', serve = True, port = 9100, remote_arg = None, local_arg = None\<rparr>,
           config = \<lparr>local = ''http://127.0.0.1:8545'', remote = ''https://ethereum.llamarpc.com'',
                     is_hex = True, jsonrpc_body = eth_body\<rparr>\<rparr>
          (scripted []))
     = Inr \<lparr>status = 200, mimetype = ''text/plain'',
            data = ''# Error: could not retrieve block height for chain '' @ [CHR 0x27] @ ''eth''
                   @ [CHR 0x27, CHR 0x0A, CHR 0x0A]\<rparr>"
proof -
  let ?g = "\<lparr>chain_configs = map_of CHAIN_CONFIGS,
           args = \<lparr>chain = ''eth'', serve = True, port = 9100, remote_arg = None, local_arg = None\<rparr>,
           config = \<lparr>local = ''http://127.0.0.1:8545'', remote = ''https://ethereum.llamarpc.com'',
                     is_hex = True, jsonrpc_body = eth_body\<rparr>\<rparr>"
  have h: "\<forall>n rq e. upstream (scripted []) n rq = Raises e \<longrightarrow> is_Exception (exc_class e)"
    by (auto simp add: scripted_def)
  have r: "fst (fetch_block_height u eth_body True w) = Inr None"
    if "upstream w = upstream (scripted [])" for u w
    using that by (simp add: fetch_block_height_result requests_post_fst fetch_block_height_try_def
        scripted_def)
  have p: "\<forall>r l. fst (fetch_block_height (remote (config ?g)) (jsonrpc_body (config ?g))
                          (is_hex (config ?g)) (scripted [])) = Inr (Some r)
                 \<and> fst (fetch_block_height (local (config ?g)) (jsonrpc_body (config ?g))
                          (is_hex (config ?g))
                          (snd (fetch_block_height (remote (config ?g)) (jsonrpc_body (config ?g))
                                  (is_hex (config ?g)) (scripted [])))) = Inr (Some l)
               \<longrightarrow> printable l \<and> printable r \<and> printable (r - l)"
    by (simp add: r)
  have c: "fst (calculate_metrics ''eth'' ''http://127.0.0.1:8545'' ''https://ethereum.llamarpc.com''
                  eth_body True (scripted [])) = Inr (error_comment ''eth'' @ [CHR 0x0A])"
    by (simp add: calculate_metrics_unfold r fetch_block_height_upstream)
  from metrics_responds_200 [OF h p] c show ?thesis
    by (auto simp add: error_comment_def)
qed

subsection \<open>Overrides at startup\<close>






end
